theory Spec2Isabelle
  imports Main "HOL-Library.Word" "HOL-Library.Signed_Division"
begin

section \<open>Object dictionary of the solar power management firmware\<close>

text \<open>
  The development follows \<^verbatim>\<open>firmware/power-management-objdic.h\<close>: the topology
  constants, the battery state enumerations, the measurement union, the battery state
  structure, the calibration factors, the default parameters and the configuration
  structure. Quantities marked "times 256" are fixed point integers with eight
  fractional bits.
\<close>

subsection \<open>Topology\<close>

definition NUM_BATS :: nat where "NUM_BATS = 3"
definition NUM_LOADS :: nat where "NUM_LOADS = 2"
definition NUM_PANELS :: nat where "NUM_PANELS = 1"

text \<open>The macro is the unparenthesised sum; as an array bound it is the sum itself.\<close>

definition NUM_IFS :: nat where "NUM_IFS = NUM_BATS + NUM_LOADS + NUM_PANELS"

definition LOAD_1 :: nat where "LOAD_1 = 0"
definition LOAD_2 :: nat where "LOAD_2 = 1"
definition PANEL :: nat where "PANEL = 2"

subsection \<open>Battery state identifiers\<close>

text \<open>Each enumeration comes with the integer the header assigns to every constant.\<close>

datatype battery_Type = wetT | gelT | agmT

fun battery_Type_value :: "battery_Type \<Rightarrow> nat" where
  "battery_Type_value wetT = 0"
| "battery_Type_value gelT = 1"
| "battery_Type_value agmT = 2"

datatype battery_Fl_States = normalF | lowF | criticalF | faultyF

fun battery_Fl_value :: "battery_Fl_States \<Rightarrow> nat" where
  "battery_Fl_value normalF = 0"
| "battery_Fl_value lowF = 1"
| "battery_Fl_value criticalF = 2"
| "battery_Fl_value faultyF = 3"

datatype battery_Op_States = loadedO | chargingO | isolatedO

fun battery_Op_value :: "battery_Op_States \<Rightarrow> nat" where
  "battery_Op_value loadedO = 0"
| "battery_Op_value chargingO = 1"
| "battery_Op_value isolatedO = 2"

datatype battery_Ch_States = bulkC | absorptionC | floatC | restC | equalizationC

fun battery_Ch_value :: "battery_Ch_States \<Rightarrow> nat" where
  "battery_Ch_value bulkC = 0"
| "battery_Ch_value absorptionC = 1"
| "battery_Ch_value floatC = 2"
| "battery_Ch_value restC = 3"
| "battery_Ch_value equalizationC = 4"

datatype battery_Hl_States = goodH | faultyH | missingH | weakH

fun battery_Hl_value :: "battery_Hl_States \<Rightarrow> nat" where
  "battery_Hl_value goodH = 0"
| "battery_Hl_value faultyH = 1"
| "battery_Hl_value missingH = 2"
| "battery_Hl_value weakH = 3"

subsection \<open>Task pacing\<close>

text \<open>
  The delays are tick counts: the period in milliseconds divided by
  \<^verbatim>\<open>portTICK_RATE_MS\<close>, the milliseconds per scheduler tick. That macro belongs to
  the scheduler's port and is a parameter here; the header's comments speak of 1ms ticks.
\<close>

definition WATCHDOG_DELAY :: "nat \<Rightarrow> nat" where
  "WATCHDOG_DELAY portTICK_RATE_MS = 512 div portTICK_RATE_MS"

definition CHARGER_DELAY :: "nat \<Rightarrow> nat" where
  "CHARGER_DELAY portTICK_RATE_MS = 512 div portTICK_RATE_MS"

definition MONITOR_DELAY :: "nat \<Rightarrow> nat" where
  "MONITOR_DELAY portTICK_RATE_MS = 512 div portTICK_RATE_MS"

definition MEASUREMENT_DELAY :: "nat \<Rightarrow> nat" where
  "MEASUREMENT_DELAY portTICK_RATE_MS = 512 div portTICK_RATE_MS"

definition CALIBRATION_DELAY :: "nat \<Rightarrow> nat" where
  "CALIBRATION_DELAY portTICK_RATE_MS = 4096 div portTICK_RATE_MS"

subsection \<open>Calibration factors\<close>

definition CURRENT_OFFSET :: int where "CURRENT_OFFSET = 2028"
definition CURRENT_SCALE :: int where "CURRENT_SCALE = 8373"

text \<open>
  The voltage amplifier parameters depend on the board version; any other version stops
  the build, which is \<open>None\<close> here.
\<close>

definition VOLTAGE_OFFSET :: "nat \<Rightarrow> int option" where
  "VOLTAGE_OFFSET VERSION =
     (if VERSION = 1 then Some 9453071
      else if VERSION = 2 then Some 9611946
      else if VERSION = 3 then Some 10565197
      else None)"

definition VOLTAGE_SCALE :: "nat \<Rightarrow> int option" where
  "VOLTAGE_SCALE VERSION =
     (if VERSION = 1 then Some 1523
      else if VERSION = 2 then Some 1548
      else if VERSION = 3 then Some 1418
      else None)"

definition TEMPERATURE_SCALE :: int where "TEMPERATURE_SCALE = 328 * 256"
definition TEMPERATURE_OFFSET :: int where "TEMPERATURE_OFFSET = 3412"
definition TEMPERATURE_LIMIT :: int where "TEMPERATURE_LIMIT = 45"

subsection \<open>Battery default parameters\<close>

definition BATTERY_CAPACITY_1 :: int where "BATTERY_CAPACITY_1 = 100"
definition BATTERY_CAPACITY_2 :: int where "BATTERY_CAPACITY_2 = 100"
definition BATTERY_CAPACITY_3 :: int where "BATTERY_CAPACITY_3 = 100"
definition BATTERY_TYPE_1 :: battery_Type where "BATTERY_TYPE_1 = wetT"
definition BATTERY_TYPE_2 :: battery_Type where "BATTERY_TYPE_2 = gelT"
definition BATTERY_TYPE_3 :: battery_Type where "BATTERY_TYPE_3 = wetT"

subsection \<open>Battery monitoring default triggers\<close>

definition GOOD_VOLTAGE :: int where "GOOD_VOLTAGE = 3328"
definition LOW_VOLTAGE :: int where "LOW_VOLTAGE = 3072"
definition CRITICAL_VOLTAGE :: int where "CRITICAL_VOLTAGE = 2995"
definition WEAK_VOLTAGE :: int where "WEAK_VOLTAGE = 2944"

definition LOW_SOC :: int where "LOW_SOC = 60 * 256"
definition CRITICAL_SOC :: int where "CRITICAL_SOC = 45 * 256"

subsection \<open>Charger algorithm default parameters\<close>

definition REST_TIME :: int where "REST_TIME = 30"
definition ABSORPTION_TIME :: int where "ABSORPTION_TIME = 90"
definition MIN_DUTYCYCLE :: int where "MIN_DUTYCYCLE = 256"
definition FLOAT_DELAY :: int where "FLOAT_DELAY = 7200"
definition FLOAT_BULK_SOC :: int where "FLOAT_BULK_SOC = 95 * 256"
definition REST_SoC :: int where "REST_SoC = 70 * 256"
definition SoC_HYSTERESIS :: int where "SoC_HYSTERESIS = 5 * 256"
definition FLOAT_DELAY_LIMIT :: int where "FLOAT_DELAY_LIMIT = 10"

subsection \<open>Voltages in fixed point\<close>

text \<open>
  A voltage given in tenths of a volt, times 256, rounded down and rounded to nearest.
  These two follow the comments beside the threshold macros (13.0V, 12.0V, 11.5V, 11.1V),
  not the macros' values.
\<close>

definition decivolts_x256_floor :: "int \<Rightarrow> int" where
  "decivolts_x256_floor d = (d * 256) div 10"

definition decivolts_x256_nearest :: "int \<Rightarrow> int" where
  "decivolts_x256_nearest d = (d * 256 + 5) div 10"

subsection \<open>Measured data: one value per interface\<close>

type_synonym int16_t = "16 word"

text \<open>The structure view: three arrays, the batteries, the loads and the panels.\<close>

record Interface =
  battery :: "int16_t list"
  load :: "int16_t list"
  panel :: "int16_t list"

text \<open>
  The union \<^verbatim>\<open>InterfaceGroup\<close> is one object seen as \<^verbatim>\<open>data[NUM_IFS]\<close> or as
  \<^verbatim>\<open>dataArray\<close>. Its storage is the flat array of \<open>NUM_IFS\<close> elements; the
  structure view reads the same storage member after member, in declaration order
  (the members are arrays of one element type, so nothing separates them). An index
  outside the array is undefined behaviour in C and \<open>None\<close> here.
\<close>

type_synonym InterfaceGroup = "int16_t list"

definition data_read :: "InterfaceGroup \<Rightarrow> nat \<Rightarrow> int16_t option" where
  "data_read g i = (if i < NUM_IFS then Some (g ! i) else None)"

definition data_write :: "InterfaceGroup \<Rightarrow> nat \<Rightarrow> int16_t \<Rightarrow> InterfaceGroup option" where
  "data_write g i v = (if i < NUM_IFS then Some (g[i := v]) else None)"

definition dataArray :: "InterfaceGroup \<Rightarrow> Interface" where
  "dataArray g =
     \<lparr>battery = take NUM_BATS g,
      load = take NUM_LOADS (drop NUM_BATS g),
      panel = take NUM_PANELS (drop (NUM_BATS + NUM_LOADS) g)\<rparr>"

definition of_dataArray :: "Interface \<Rightarrow> InterfaceGroup" where
  "of_dataArray s = battery s @ load s @ panel s"

text \<open>A channel names an element of the structure view: a member and an index in it.\<close>

datatype channel = Battery nat | Load nat | Panel nat

fun member_read :: "Interface \<Rightarrow> channel \<Rightarrow> int16_t option" where
  "member_read s (Battery i) = (if i < NUM_BATS then Some (battery s ! i) else None)"
| "member_read s (Load j) = (if j < NUM_LOADS then Some (load s ! j) else None)"
| "member_read s (Panel k) = (if k < NUM_PANELS then Some (panel s ! k) else None)"

fun member_write :: "Interface \<Rightarrow> channel \<Rightarrow> int16_t \<Rightarrow> Interface option" where
  "member_write s (Battery i) v =
     (if i < NUM_BATS then Some (s\<lparr>battery := (battery s)[i := v]\<rparr>) else None)"
| "member_write s (Load j) v =
     (if j < NUM_LOADS then Some (s\<lparr>load := (load s)[j := v]\<rparr>) else None)"
| "member_write s (Panel k) v =
     (if k < NUM_PANELS then Some (s\<lparr>panel := (panel s)[k := v]\<rparr>) else None)"

text \<open>The position of a channel in the flat array, and the channel at a position.\<close>

fun channel_index :: "channel \<Rightarrow> nat option" where
  "channel_index (Battery i) = (if i < NUM_BATS then Some i else None)"
| "channel_index (Load j) = (if j < NUM_LOADS then Some (NUM_BATS + j) else None)"
| "channel_index (Panel k) =
     (if k < NUM_PANELS then Some (NUM_BATS + NUM_LOADS + k) else None)"

definition index_channel :: "nat \<Rightarrow> channel option" where
  "index_channel i =
     (if i < NUM_BATS then Some (Battery i)
      else if i < NUM_BATS + NUM_LOADS then Some (Load (i - NUM_BATS))
      else if i < NUM_IFS then Some (Panel (i - (NUM_BATS + NUM_LOADS)))
      else None)"

subsection \<open>Battery state structure\<close>

record batteryStates =
  currentSteady :: "16 word"
  fillState :: battery_Fl_States
  opState :: battery_Op_States
  healthState :: battery_Hl_States
  lastCurrent :: int16_t
  lastVoltage :: int16_t
  SoC :: "16 word"
  charge :: "32 word"
  isolationTime :: "32 word"

subsection \<open>Configuration items\<close>

text \<open>
  \<^verbatim>\<open>portTickType\<close> is the scheduler port's unsigned tick counter; the header does not
  fix its width, and the delays are natural numbers here.
\<close>

record Config =
  validBlock :: "8 word"
  enableSend :: bool
  measurementSend :: bool
  debugMessageSend :: bool
  recording :: bool
  batteryCapacity :: "16 word list"
  batteryType :: "battery_Type list"
  absorptionVoltage :: "int16_t list"
  floatVoltage :: "int16_t list"
  floatStageCurrentScale :: "int16_t list"
  bulkCurrentLimitScale :: "int16_t list"
  alphaR :: int16_t
  alphaV :: int16_t
  alphaC :: int16_t
  autoTrack :: bool
  panelSwitchSetting :: "8 word"
  monitorStrategy :: "8 word"
  lowVoltage :: int16_t
  criticalVoltage :: int16_t
  lowSoC :: int16_t
  criticalSoC :: int16_t
  floatBulkSoC :: int16_t
  chargerStrategy :: "8 word"
  restTime :: int16_t
  absorptionTime :: "16 word"
  minDutyCycle :: int16_t
  floatTime :: int16_t
  watchdogDelay :: nat
  chargerDelay :: nat
  measurementDelay :: nat
  monitorDelay :: nat
  calibrationDelay :: nat
  currentOffsets :: InterfaceGroup

definition CONFIG_BLOCK_SIZE :: nat where "CONFIG_BLOCK_SIZE = 2048"

subsection \<open>The declaration of the configuration structure\<close>

text \<open>
  The same structure as a list of member declarations, in the header's order: name,
  element type and number of elements (1 for a scalar; the union \<^verbatim>\<open>currentOffsets\<close>
  is \<open>NUM_IFS\<close> elements of \<^verbatim>\<open>int16_t\<close>).
\<close>

datatype ctype = T_uint8 | T_bool | T_uint16 | T_int16 | T_battery_Type | T_portTickType

type_synonym member_decl = "string \<times> ctype \<times> nat"

definition Config_members :: "member_decl list" where
  "Config_members =
    [(''validBlock'', T_uint8, 1),
     (''enableSend'', T_bool, 1),
     (''measurementSend'', T_bool, 1),
     (''debugMessageSend'', T_bool, 1),
     (''recording'', T_bool, 1),
     (''batteryCapacity'', T_uint16, NUM_BATS),
     (''batteryType'', T_battery_Type, NUM_BATS),
     (''absorptionVoltage'', T_int16, NUM_BATS),
     (''floatVoltage'', T_int16, NUM_BATS),
     (''floatStageCurrentScale'', T_int16, NUM_BATS),
     (''bulkCurrentLimitScale'', T_int16, NUM_BATS),
     (''alphaR'', T_int16, 1),
     (''alphaV'', T_int16, 1),
     (''alphaC'', T_int16, 1),
     (''autoTrack'', T_bool, 1),
     (''panelSwitchSetting'', T_uint8, 1),
     (''monitorStrategy'', T_uint8, 1),
     (''lowVoltage'', T_int16, 1),
     (''criticalVoltage'', T_int16, 1),
     (''lowSoC'', T_int16, 1),
     (''criticalSoC'', T_int16, 1),
     (''floatBulkSoC'', T_int16, 1),
     (''chargerStrategy'', T_uint8, 1),
     (''restTime'', T_int16, 1),
     (''absorptionTime'', T_uint16, 1),
     (''minDutyCycle'', T_int16, 1),
     (''floatTime'', T_int16, 1),
     (''watchdogDelay'', T_portTickType, 1),
     (''chargerDelay'', T_portTickType, 1),
     (''measurementDelay'', T_portTickType, 1),
     (''monitorDelay'', T_portTickType, 1),
     (''calibrationDelay'', T_portTickType, 1),
     (''currentOffsets'', T_int16, NUM_IFS)]"

text \<open>
  Sizes in bytes. The size of an enumeration and of \<^verbatim>\<open>portTickType\<close> are the
  compiler's and the scheduler port's choice, and are parameters.
\<close>

fun ctype_size :: "nat \<Rightarrow> nat \<Rightarrow> ctype \<Rightarrow> nat" where
  "ctype_size enum_size tick_size T_uint8 = 1"
| "ctype_size enum_size tick_size T_bool = 1"
| "ctype_size enum_size tick_size T_uint16 = 2"
| "ctype_size enum_size tick_size T_int16 = 2"
| "ctype_size enum_size tick_size T_battery_Type = enum_size"
| "ctype_size enum_size tick_size T_portTickType = tick_size"

text \<open>
  Natural alignment: every member starts at the next multiple of its element size, and
  the structure's size is rounded up to its largest element size.
\<close>

definition align_up :: "nat \<Rightarrow> nat \<Rightarrow> nat" where
  "align_up a n = ((n + a - 1) div a) * a"

fun layout :: "(ctype \<Rightarrow> nat) \<Rightarrow> nat \<Rightarrow> member_decl list \<Rightarrow> nat" where
  "layout sz off [] = off"
| "layout sz off ((name, t, n) # ms) = layout sz (align_up (sz t) off + n * sz t) ms"

definition struct_alignment :: "(ctype \<Rightarrow> nat) \<Rightarrow> member_decl list \<Rightarrow> nat" where
  "struct_alignment sz ms = fold (\<lambda>(name, t, n) a. max a (sz t)) ms 1"

definition sizeof_struct :: "(ctype \<Rightarrow> nat) \<Rightarrow> member_decl list \<Rightarrow> nat" where
  "sizeof_struct sz ms = align_up (struct_alignment sz ms) (layout sz 0 ms)"

definition sizeof_Config :: "nat \<Rightarrow> nat \<Rightarrow> nat" where
  "sizeof_Config enum_size tick_size =
     sizeof_struct (ctype_size enum_size tick_size) Config_members"


section \<open>The parts of the firmware the header only declares\<close>

subsection \<open>Access to the current offsets\<close>

text \<open>
  Modelled from the spec: the bodies of \<^verbatim>\<open>getCurrentOffset\<close> and
  \<^verbatim>\<open>setCurrentOffset\<close>, of which the header has the prototypes only. Following
  section 4.1 they read and write the configuration's per-interface table of current
  offsets at the given interface. An interface outside the table is \<open>None\<close>.
\<close>

definition getCurrentOffset :: "Config \<Rightarrow> 8 word \<Rightarrow> int16_t option" where
  "getCurrentOffset cfg interface = data_read (currentOffsets cfg) (unat interface)"

definition setCurrentOffset :: "8 word \<Rightarrow> int16_t \<Rightarrow> Config \<Rightarrow> Config option" where
  "setCurrentOffset interface offset cfg =
     map_option (\<lambda>g. cfg\<lparr>currentOffsets := g\<rparr>)
       (data_write (currentOffsets cfg) (unat interface) offset)"

subsection \<open>Calibration conversion\<close>

text \<open>
  Modelled from the spec: CalibrationConverter, which is not in the header (only its
  constants are). Section 4.1: each channel class (current, voltage, temperature) has
  its (offset, scale) pair, the current offset being the per-interface one of the
  configuration, and the physical value is \<open>((rawSample - offset) * scale) >> 12\<close>.
  The shift is the arithmetic one, on unbounded integers.
\<close>

datatype channel_class = Current_class "8 word" | Voltage_class | Temperature_class

fun channel_parameters :: "nat \<Rightarrow> Config \<Rightarrow> channel_class \<Rightarrow> (int \<times> int) option" where
  "channel_parameters VERSION cfg (Current_class interface) =
     map_option (\<lambda>off. (sint off, CURRENT_SCALE)) (getCurrentOffset cfg interface)"
| "channel_parameters VERSION cfg Voltage_class =
     (case (VOLTAGE_OFFSET VERSION, VOLTAGE_SCALE VERSION) of
        (Some off, Some sc) \<Rightarrow> Some (off, sc)
      | _ \<Rightarrow> None)"
| "channel_parameters VERSION cfg Temperature_class =
     Some (TEMPERATURE_OFFSET, TEMPERATURE_SCALE)"

definition physicalValue :: "int \<Rightarrow> int \<Rightarrow> int \<Rightarrow> int" where
  "physicalValue offset scale rawSample = drop_bit 12 ((rawSample - offset) * scale)"

definition convert :: "nat \<Rightarrow> Config \<Rightarrow> channel_class \<Rightarrow> int \<Rightarrow> int option" where
  "convert VERSION cfg ch rawSample =
     map_option (\<lambda>(offset, scale). physicalValue offset scale rawSample)
       (channel_parameters VERSION cfg ch)"

subsection \<open>Coulomb counting\<close>

text \<open>
  Modelled from the spec: step 1 of BatteryStateEstimator (section 4.3), which is not
  in the header: \<open>charge += current * dt\<close>, then
  \<open>SoC = clamp(charge / capacity, 0, 100 * 256)\<close>. The accumulator is the 32 bit
  \<^verbatim>\<open>charge\<close> member and the result is stored in the 16 bit \<^verbatim>\<open>SoC\<close> member of
  the battery state structure; the division is C's, truncating towards zero (and, as
  everywhere in HOL, 0 for a zero capacity, which the spec does not consider).
\<close>

definition clamp :: "int \<Rightarrow> int \<Rightarrow> int \<Rightarrow> int" where
  "clamp x lo hi = (if x < lo then lo else if hi < x then hi else x)"

definition updateSoC :: "16 word \<Rightarrow> int \<Rightarrow> int \<Rightarrow> batteryStates \<Rightarrow> batteryStates" where
  "updateSoC capacity current dt b =
     (let charge' = charge b + word_of_int (current * dt)
      in b\<lparr>charge := charge',
            SoC := word_of_int (clamp (sint charge' sdiv uint capacity) 0 (100 * 256))\<rparr>)"

subsection \<open>Health report, hard fault exit and allocation\<close>

text \<open>
  Modelled from the spec: the health report of BatteryStateEstimator (section 4.3,
  step 3 and the failure policy), which is not in the header. The signals that decide
  the class are not part of the header either, so the class found on this tick is given
  by a parameter; the estimator stores it in the battery's record on the same tick.
\<close>

definition report_health ::
  "(nat \<Rightarrow> batteryStates \<Rightarrow> battery_Hl_States) \<Rightarrow> batteryStates list \<Rightarrow> batteryStates list" where
  "report_health classify bats =
     map (\<lambda>(i, b). b\<lparr>healthState := classify i b\<rparr>) (enumerate 0 bats)"

text \<open>
  Modelled from the spec: the hard fault exit of ChargeStageController (section 4.4),
  which is not in the header. The controller is active only while the battery is
  charging; there a temperature at or above \<open>TEMPERATURE_LIMIT\<close> (in degrees) or a
  faulty or missing health state forces the battery into isolation.
\<close>

definition hard_fault_exit :: "int \<Rightarrow> batteryStates \<Rightarrow> batteryStates" where
  "hard_fault_exit temperature b =
     (if opState b = chargingO
         \<and> (TEMPERATURE_LIMIT \<le> temperature
             \<or> healthState b = faultyH \<or> healthState b = missingH)
      then b\<lparr>opState := isolatedO\<rparr> else b)"

text \<open>
  Modelled from the spec: AllocationManager (section 4.5), which is not in the header.
  Every faulty or missing battery is isolated, whatever the switches say: sections 3,
  4.5 and 8 make this mandatory, with no exception path. For the other batteries, with
  \<open>autoTrack\<close> false the allocation is a no-op and the external assignment is kept
  as it is; with \<open>autoTrack\<close> true the choice among them (ranking, panel capacity,
  hysteresis, strategy switches) is not modelled: it is the parameter \<open>select\<close>,
  which sees the whole table and the battery's index.
\<close>

definition AllocationManager ::
  "bool \<Rightarrow> (batteryStates list \<Rightarrow> nat \<Rightarrow> battery_Op_States) \<Rightarrow> batteryStates list
     \<Rightarrow> batteryStates list" where
  "AllocationManager auto select bats =
     map (\<lambda>(i, b).
            if healthState b = faultyH \<or> healthState b = missingH
            then b\<lparr>opState := isolatedO\<rparr>
            else if auto then b\<lparr>opState := select bats i\<rparr>
            else b)
       (enumerate 0 bats)"

text \<open>
  Modelled from the spec: the order of section 5 within one tick, restricted to the
  three steps above: estimator, then charge stage controller, then allocation.
\<close>

definition pipeline_tick ::
  "bool \<Rightarrow> (batteryStates list \<Rightarrow> nat \<Rightarrow> battery_Op_States)
     \<Rightarrow> int \<Rightarrow> (nat \<Rightarrow> batteryStates \<Rightarrow> battery_Hl_States)
     \<Rightarrow> batteryStates list \<Rightarrow> batteryStates list" where
  "pipeline_tick auto select temperature classify bats =
     AllocationManager auto select
       (map (hard_fault_exit temperature) (report_health classify bats))"

text \<open>A battery on load in good health, and parameters for one tick of it.\<close>

definition loaded_battery :: batteryStates where
  "loaded_battery =
     \<lparr>currentSteady = 0, fillState = normalF, opState = loadedO, healthState = goodH,
      lastCurrent = 0, lastVoltage = 3328, SoC = 20480, charge = 0, isolationTime = 0\<rparr>"

definition classify_faulty :: "nat \<Rightarrow> batteryStates \<Rightarrow> battery_Hl_States" where
  "classify_faulty i b = faultyH"

definition select_loaded :: "batteryStates list \<Rightarrow> nat \<Rightarrow> battery_Op_States" where
  "select_loaded bats i = loadedO"

subsection \<open>Severity\<close>

text \<open>
  Which state is the worse one. For the fill state, section 4.3 has the order
  normal, low, critical, and the faulty state beyond them. For the health state, the
  header's comment and section 4.5: a good battery is unrestricted, a weak one is kept
  from the loads where possible, a faulty or missing one is isolated; nothing ranks
  faulty against missing.
\<close>

fun fill_worse :: "battery_Fl_States \<Rightarrow> battery_Fl_States \<Rightarrow> bool" where
  "fill_worse normalF b = (b = lowF \<or> b = criticalF \<or> b = faultyF)"
| "fill_worse lowF b = (b = criticalF \<or> b = faultyF)"
| "fill_worse criticalF b = (b = faultyF)"
| "fill_worse faultyF b = False"

fun health_worse :: "battery_Hl_States \<Rightarrow> battery_Hl_States \<Rightarrow> bool" where
  "health_worse goodH b = (b = weakH \<or> b = faultyH \<or> b = missingH)"
| "health_worse weakH b = (b = faultyH \<or> b = missingH)"
| "health_worse faultyH b = False"
| "health_worse missingH b = False"

text \<open>On a pair of health states, the order of the integers is the order of severity.\<close>

definition health_order_agrees :: "battery_Hl_States \<Rightarrow> battery_Hl_States \<Rightarrow> bool" where
  "health_order_agrees a b =
     ((battery_Hl_value a < battery_Hl_value b) = health_worse a b
      \<and> (battery_Hl_value b < battery_Hl_value a) = health_worse b a)"

subsection \<open>The configuration record as the spec lists it\<close>

text \<open>
  The items of the configuration record named in section 6, each with its number of
  elements: the per-battery items have \<open>NUM_BATS\<close>, the current offsets one per
  interface, every other item one. The communication flags are one item.
\<close>

datatype periodic_task = Watchdog | Charger | Monitor | Measurement | Calibration

datatype config_item =
    Validity_marker | Communication_flag | Recording_flag
  | Battery_capacity | Battery_type | Absorption_voltage | Float_voltage
  | Float_current_scale | Bulk_current_limit_scale
  | Alpha_R | Alpha_V | Alpha_C | Auto_track | Panel_switch_setting
  | Monitor_strategy | Charger_strategy
  | Low_voltage | Critical_voltage | Low_SoC | Critical_SoC | Float_bulk_SoC
  | Rest_time | Absorption_time | Min_duty_cycle | Float_delay
  | Tick_delay periodic_task
  | Current_offsets

definition spec_items :: "(config_item \<times> nat) list" where
  "spec_items =
    [(Validity_marker, 1), (Communication_flag, 1), (Recording_flag, 1),
     (Battery_capacity, NUM_BATS), (Battery_type, NUM_BATS),
     (Absorption_voltage, NUM_BATS), (Float_voltage, NUM_BATS),
     (Float_current_scale, NUM_BATS), (Bulk_current_limit_scale, NUM_BATS),
     (Alpha_R, 1), (Alpha_V, 1), (Alpha_C, 1), (Auto_track, 1),
     (Panel_switch_setting, 1), (Monitor_strategy, 1), (Charger_strategy, 1),
     (Low_voltage, 1), (Critical_voltage, 1), (Low_SoC, 1), (Critical_SoC, 1),
     (Float_bulk_SoC, 1),
     (Rest_time, 1), (Absorption_time, 1), (Min_duty_cycle, 1), (Float_delay, 1),
     (Tick_delay Watchdog, 1), (Tick_delay Charger, 1), (Tick_delay Monitor, 1),
     (Tick_delay Measurement, 1), (Tick_delay Calibration, 1),
     (Current_offsets, NUM_IFS)]"

text \<open>The item a member of the structure stands for, after the header's comments.\<close>

definition member_item :: "string \<Rightarrow> config_item option" where
  "member_item name = map_of
    [(''validBlock'', Validity_marker),
     (''enableSend'', Communication_flag),
     (''measurementSend'', Communication_flag),
     (''debugMessageSend'', Communication_flag),
     (''recording'', Recording_flag),
     (''batteryCapacity'', Battery_capacity),
     (''batteryType'', Battery_type),
     (''absorptionVoltage'', Absorption_voltage),
     (''floatVoltage'', Float_voltage),
     (''floatStageCurrentScale'', Float_current_scale),
     (''bulkCurrentLimitScale'', Bulk_current_limit_scale),
     (''alphaR'', Alpha_R),
     (''alphaV'', Alpha_V),
     (''alphaC'', Alpha_C),
     (''autoTrack'', Auto_track),
     (''panelSwitchSetting'', Panel_switch_setting),
     (''monitorStrategy'', Monitor_strategy),
     (''lowVoltage'', Low_voltage),
     (''criticalVoltage'', Critical_voltage),
     (''lowSoC'', Low_SoC),
     (''criticalSoC'', Critical_SoC),
     (''floatBulkSoC'', Float_bulk_SoC),
     (''chargerStrategy'', Charger_strategy),
     (''restTime'', Rest_time),
     (''absorptionTime'', Absorption_time),
     (''minDutyCycle'', Min_duty_cycle),
     (''floatTime'', Float_delay),
     (''watchdogDelay'', Tick_delay Watchdog),
     (''chargerDelay'', Tick_delay Charger),
     (''measurementDelay'', Tick_delay Measurement),
     (''monitorDelay'', Tick_delay Monitor),
     (''calibrationDelay'', Tick_delay Calibration),
     (''currentOffsets'', Current_offsets)] name"

definition members_as_items :: "member_decl list \<Rightarrow> (config_item option \<times> nat) list" where
  "members_as_items ms = map (\<lambda>(name, t, n). (member_item name, n)) ms"


subsection \<open>A configuration to compute with\<close>

text \<open>
  A configuration record filled with the default parameters of the header, the current
  offsets all at \<open>CURRENT_OFFSET\<close>, and a table of six readings.
\<close>

definition sample_Config :: Config where
  "sample_Config =
     \<lparr>validBlock = 0, enableSend = True, measurementSend = True, debugMessageSend = False,
      recording = False, batteryCapacity = [100, 100, 100],
      batteryType = [wetT, gelT, wetT], absorptionVoltage = [0, 0, 0],
      floatVoltage = [0, 0, 0], floatStageCurrentScale = [0, 0, 0],
      bulkCurrentLimitScale = [0, 0, 0], alphaR = 0, alphaV = 0, alphaC = 0,
      autoTrack = True, panelSwitchSetting = 0, monitorStrategy = 0,
      lowVoltage = 3072, criticalVoltage = 2995, lowSoC = 15360, criticalSoC = 11520,
      floatBulkSoC = 24320, chargerStrategy = 0, restTime = 30, absorptionTime = 90,
      minDutyCycle = 256, floatTime = 7200, watchdogDelay = 512, chargerDelay = 512,
      measurementDelay = 512, monitorDelay = 512, calibrationDelay = 4096,
      currentOffsets = [2028, 2028, 2028, 2028, 2028, 2028]\<rparr>"

definition sample_readings :: InterfaceGroup where
  "sample_readings = [10, 20, 30, 40, 50, 60]"



section \<open>Default values\<close>

text \<open>
  C3. The default voltage thresholds against the voltages written beside them, times 256:
  GOOD_VOLTAGE is 13.0V and LOW_VOLTAGE is 12.0V exactly, but CRITICAL_VOLTAGE is 2995
  where 11.5V is 2944, and WEAK_VOLTAGE is 2944 (which is 11.5V) where 11.1V is 2841 or
  2842. The two lower thresholds do not have the documented values.
\<close>

theorem voltage_thresholds_values:
  "GOOD_VOLTAGE = decivolts_x256_floor 130 \<and> GOOD_VOLTAGE = decivolts_x256_nearest 130
   \<and> LOW_VOLTAGE = decivolts_x256_floor 120 \<and> LOW_VOLTAGE = decivolts_x256_nearest 120
   \<and> decivolts_x256_floor 115 = 2944 \<and> decivolts_x256_nearest 115 = 2944
   \<and> CRITICAL_VOLTAGE = 2995 \<and> CRITICAL_VOLTAGE - decivolts_x256_nearest 115 = 51
   \<and> decivolts_x256_floor 111 = 2841 \<and> decivolts_x256_nearest 111 = 2842
   \<and> WEAK_VOLTAGE = 2944 \<and> WEAK_VOLTAGE - decivolts_x256_nearest 111 = 102
   \<and> WEAK_VOLTAGE = decivolts_x256_nearest 115"
  by (simp add: GOOD_VOLTAGE_def LOW_VOLTAGE_def CRITICAL_VOLTAGE_def WEAK_VOLTAGE_def
      decivolts_x256_floor_def decivolts_x256_nearest_def)

text \<open>
  C4. The remaining defaults: capacities 100/100/100 Ah, types wet/gel/wet, low and
  critical SoC 60 and 45 percent, rest time 30 s, absorption time 90 s, minimum duty
  cycle 256, float delay 7200 s, float-bulk SoC 95 percent, rest SoC 70 percent, SoC
  hysteresis 5 percent (all percentages times 256), float delay limit 10 cycles,
  temperature limit 45 degrees; and, whenever the scheduler's tick length in
  milliseconds divides 512 (as the 1ms tick of the header's comments does), the task
  periods are 512 ms for watchdog, charger, monitor and measurement and 4096 ms for
  calibration.
\<close>

theorem default_parameters_values:
  assumes "portTICK_RATE_MS dvd 512"
  shows "BATTERY_CAPACITY_1 = 100 \<and> BATTERY_CAPACITY_2 = 100 \<and> BATTERY_CAPACITY_3 = 100
    \<and> BATTERY_TYPE_1 = wetT \<and> BATTERY_TYPE_2 = gelT \<and> BATTERY_TYPE_3 = wetT
    \<and> LOW_SOC = 60 * 256 \<and> CRITICAL_SOC = 45 * 256
    \<and> REST_TIME = 30 \<and> ABSORPTION_TIME = 90 \<and> MIN_DUTYCYCLE = 256
    \<and> FLOAT_DELAY = 7200 \<and> FLOAT_BULK_SOC = 95 * 256 \<and> REST_SoC = 70 * 256
    \<and> SoC_HYSTERESIS = 5 * 256 \<and> FLOAT_DELAY_LIMIT = 10 \<and> TEMPERATURE_LIMIT = 45
    \<and> WATCHDOG_DELAY portTICK_RATE_MS * portTICK_RATE_MS = 512
    \<and> CHARGER_DELAY portTICK_RATE_MS * portTICK_RATE_MS = 512
    \<and> MONITOR_DELAY portTICK_RATE_MS * portTICK_RATE_MS = 512
    \<and> MEASUREMENT_DELAY portTICK_RATE_MS * portTICK_RATE_MS = 512
    \<and> CALIBRATION_DELAY portTICK_RATE_MS * portTICK_RATE_MS = 4096"
proof -
  have "portTICK_RATE_MS dvd 4096"
    using assms by (rule dvd_trans) simp
  with assms show ?thesis
    by (simp add: BATTERY_CAPACITY_1_def BATTERY_CAPACITY_2_def BATTERY_CAPACITY_3_def
        BATTERY_TYPE_1_def BATTERY_TYPE_2_def BATTERY_TYPE_3_def LOW_SOC_def
        CRITICAL_SOC_def REST_TIME_def ABSORPTION_TIME_def MIN_DUTYCYCLE_def
        FLOAT_DELAY_def FLOAT_BULK_SOC_def REST_SoC_def SoC_HYSTERESIS_def
        FLOAT_DELAY_LIMIT_def TEMPERATURE_LIMIT_def WATCHDOG_DELAY_def CHARGER_DELAY_def
        MONITOR_DELAY_def MEASUREMENT_DELAY_def CALIBRATION_DELAY_def)
qed

theorem default_parameters_values_witness:
  "(1::nat) dvd 512 \<and> WATCHDOG_DELAY 1 = 512 \<and> CHARGER_DELAY 1 = 512
   \<and> MONITOR_DELAY 1 = 512 \<and> MEASUREMENT_DELAY 1 = 512 \<and> CALIBRATION_DELAY 1 = 4096
   \<and> LOW_SOC = 15360 \<and> FLOAT_BULK_SOC = 24320"
  using default_parameters_values [of 1] by simp

section \<open>Encoding of the state enumerations\<close>

lemma fill_worse_iff_value: "fill_worse a b = (battery_Fl_value a < battery_Fl_value b)"
  by (cases a; cases b) simp_all

lemma health_order_agrees_goodH: "health_order_agrees goodH b"
  by (cases b) (simp_all add: health_order_agrees_def)

text \<open>
  C10. The integers of the fill states increase strictly with severity (normalF = 0,
  lowF = 1, criticalF = 2, faultyF = 3): one fill state is worse than another exactly
  when its integer is larger. The health states have no such property: weakH = 3 is
  milder than faultyH = 1 and missingH = 2, so the order of the integers is not the
  order of severity on the health states, and comparing health states by their integers
  compares another relation than severity.
\<close>

theorem enum_order_and_severity:
  "(\<forall>a b. fill_worse a b = (battery_Fl_value a < battery_Fl_value b))
   \<and> battery_Fl_value normalF = 0 \<and> battery_Fl_value lowF = 1
   \<and> battery_Fl_value criticalF = 2 \<and> battery_Fl_value faultyF = 3
   \<and> battery_Hl_value faultyH = 1 \<and> battery_Hl_value missingH = 2
   \<and> battery_Hl_value weakH = 3
   \<and> health_worse weakH faultyH \<and> battery_Hl_value faultyH < battery_Hl_value weakH
   \<and> health_worse weakH missingH \<and> battery_Hl_value missingH < battery_Hl_value weakH
   \<and> \<not> health_order_agrees weakH faultyH \<and> \<not> health_order_agrees weakH missingH
   \<and> \<not> (\<forall>a b. health_order_agrees a b)
   \<and> \<not> (\<forall>a b. health_worse a b = (battery_Hl_value a < battery_Hl_value b))"
proof -
  have 1: "\<not> health_order_agrees weakH faultyH"
    by (simp add: health_order_agrees_def)
  then have 2: "\<not> (\<forall>a b. health_order_agrees a b)"
    by blast
  have "health_worse weakH faultyH \<noteq> (battery_Hl_value weakH < battery_Hl_value faultyH)"
    by simp
  then have 3: "\<not> (\<forall>a b. health_worse a b = (battery_Hl_value a < battery_Hl_value b))"
    by blast
  show ?thesis
    using fill_worse_iff_value 1 2 3 by (simp add: health_order_agrees_def)
qed

section \<open>State of charge\<close>

lemma clamp_percentage: "0 \<le> clamp x 0 (100 * 256)" "clamp x 0 (100 * 256) \<le> 100 * 256"
  by (simp_all add: clamp_def)

lemma uint_SoC_of_percentage:
  assumes "0 \<le> q" and "q \<le> 100 * 256"
  shows "uint (word_of_int q :: 16 word) = q"
  using assms by (simp add: uint_word_of_int)

text \<open>
  C1. After the coulomb counting step the stored SoC is between 0 and 100 * 256, for
  every capacity, current, time step and previous state; and the stored 16 bit value is
  the clamped quotient itself, so a quotient outside the range is clipped to the bound
  and never reduced modulo \<open>2 ^ 16\<close>.
\<close>

theorem SoC_within_range:
  "0 \<le> uint (SoC (updateSoC capacity current dt b))
   \<and> uint (SoC (updateSoC capacity current dt b)) \<le> 100 * 256
   \<and> charge (updateSoC capacity current dt b) = charge b + word_of_int (current * dt)
   \<and> uint (SoC (updateSoC capacity current dt b))
       = clamp (sint (charge (updateSoC capacity current dt b)) sdiv uint capacity)
           0 (100 * 256)"
proof -
  define q where
    "q = clamp (sint (charge b + word_of_int (current * dt)) sdiv uint capacity) 0 (100 * 256)"
  have r: "0 \<le> q \<and> q \<le> 100 * 256"
    unfolding q_def using clamp_percentage by blast
  then have "uint (word_of_int q :: 16 word) = q"
    by (simp add: uint_SoC_of_percentage)
  with r show ?thesis
    by (simp add: updateSoC_def Let_def q_def)
qed

section \<open>Isolation of unhealthy batteries\<close>

lemma length_pipeline_tick:
  "length (pipeline_tick auto select temperature classify bats) = length bats"
  by (simp add: pipeline_tick_def AllocationManager_def report_health_def)

lemma length_report_health: "length (report_health classify bats) = length bats"
  by (simp add: report_health_def)

lemma nth_report_health:
  "i < length bats \<Longrightarrow>
     report_health classify bats ! i = (bats ! i)\<lparr>healthState := classify i (bats ! i)\<rparr>"
  by (simp add: report_health_def nth_enumerate_eq)

lemma healthState_hard_fault_exit:
  "healthState (hard_fault_exit temperature b) = healthState b"
  by (simp add: hard_fault_exit_def)

text \<open>The health state in the output of a tick is the one classified on that tick.\<close>

lemma healthState_pipeline_tick:
  assumes "i < length bats"
  shows "healthState (pipeline_tick auto select temperature classify bats ! i)
           = classify i (bats ! i)"
  using assms
  by (simp add: pipeline_tick_def AllocationManager_def nth_enumerate_eq
      length_report_health nth_report_health healthState_hard_fault_exit)

lemma opState_pipeline_tick_unhealthy:
  assumes "i < length bats"
    and "classify i (bats ! i) = faultyH \<or> classify i (bats ! i) = missingH"
  shows "opState (pipeline_tick auto select temperature classify bats ! i) = isolatedO"
  using assms
  by (auto simp add: pipeline_tick_def AllocationManager_def nth_enumerate_eq
      length_report_health nth_report_health hard_fault_exit_def)

text \<open>
  C2. For every battery of the table and every state in which a tick begins: in the
  output of AllocationManager on that tick the battery carries the health state
  classified on this very tick, and if that state is faulty or missing the battery is
  isolated, whatever \<open>autoTrack\<close>, the selection among the other batteries, the
  temperature and its previous operational state are. No faulty or missing battery
  leaves a tick loaded or charging.
\<close>

theorem unhealthy_battery_isolated_same_tick:
  assumes "i < length bats"
  shows "length (pipeline_tick auto select temperature classify bats) = length bats
    \<and> healthState (pipeline_tick auto select temperature classify bats ! i)
         = classify i (bats ! i)
    \<and> (healthState (pipeline_tick auto select temperature classify bats ! i) = faultyH
         \<or> healthState (pipeline_tick auto select temperature classify bats ! i) = missingH
        \<longrightarrow> opState (pipeline_tick auto select temperature classify bats ! i) = isolatedO
            \<and> opState (pipeline_tick auto select temperature classify bats ! i) \<noteq> loadedO
            \<and> opState (pipeline_tick auto select temperature classify bats ! i) \<noteq> chargingO)"
proof -
  have h: "healthState (pipeline_tick auto select temperature classify bats ! i)
         = classify i (bats ! i)"
    using assms by (rule healthState_pipeline_tick)
  have "opState (pipeline_tick auto select temperature classify bats ! i) = isolatedO"
    if "classify i (bats ! i) = faultyH \<or> classify i (bats ! i) = missingH"
    using assms that by (rule opState_pipeline_tick_unhealthy)
  with h show ?thesis
    by (simp add: length_pipeline_tick)
qed

theorem unhealthy_battery_isolated_same_tick_witness:
  "opState loaded_battery = loadedO
   \<and> healthState (pipeline_tick False select_loaded 20 classify_faulty [loaded_battery] ! 0)
       = faultyH
   \<and> opState (pipeline_tick False select_loaded 20 classify_faulty [loaded_battery] ! 0)
       = isolatedO
   \<and> opState (pipeline_tick True select_loaded 20 classify_faulty [loaded_battery] ! 0)
       = isolatedO"
proof -
  have l: "0 < length [loaded_battery]"
    by simp
  have a: "opState loaded_battery = loadedO"
    by (simp add: loaded_battery_def)
  have c: "classify_faulty 0 ([loaded_battery] ! 0) = faultyH"
    by (simp add: classify_faulty_def)
  from unhealthy_battery_isolated_same_tick [OF l, of False select_loaded 20 classify_faulty]
    unhealthy_battery_isolated_same_tick [OF l, of True select_loaded 20 classify_faulty]
    a c
  show ?thesis by simp
qed

section \<open>Calibration conversion\<close>

lemma NUM_IFS_value: "NUM_IFS = 6"
  by (simp add: NUM_IFS_def NUM_BATS_def NUM_LOADS_def NUM_PANELS_def)

lemma physicalValue_div:
  "physicalValue offset scale rawSample = ((rawSample - offset) * scale) div 2 ^ 12"
  by (simp add: physicalValue_def drop_bit_eq_div)

lemma getCurrentOffset_defined:
  "unat interface < NUM_IFS \<Longrightarrow> \<exists>off. getCurrentOffset cfg interface = Some off"
  by (simp add: getCurrentOffset_def data_read_def)

lemma getCurrentOffset_sample: "getCurrentOffset sample_Config 4 = Some 2028"
  by (simp add: getCurrentOffset_def data_read_def sample_Config_def NUM_IFS_value)

lemma channel_parameters_sample:
  "channel_parameters 3 sample_Config (Current_class 4) = Some (2028, 8373)"
  by (simp add: getCurrentOffset_sample CURRENT_SCALE_def)

text \<open>Every configured scale is positive, whatever the channel class and the version.\<close>

lemma configured_scale_positive:
  assumes "channel_parameters VERSION cfg ch = Some (offset, scale)"
  shows "0 < scale"
proof (cases ch)
  case (Current_class interface)
  with assms show ?thesis by (auto simp: CURRENT_SCALE_def)
next
  case Voltage_class
  with assms show ?thesis
    by (auto simp: VOLTAGE_OFFSET_def VOLTAGE_SCALE_def split: if_splits)
next
  case Temperature_class
  with assms show ?thesis by (auto simp: TEMPERATURE_SCALE_def)
qed

lemma physicalValue_mono:
  assumes "0 \<le> scale" and "r1 \<le> r2"
  shows "physicalValue offset scale r1 \<le> physicalValue offset scale r2"
proof -
  have "(r1 - offset) * scale \<le> (r2 - offset) * scale"
    using assms by (intro mult_right_mono) simp_all
  then show ?thesis
    unfolding physicalValue_div by (rule zdiv_mono1) simp
qed

text \<open>
  With the voltage pair of the header the formula of section 4.1 gives no voltage: for
  every reading of a 12 bit converter the result is below \<open>- (2 ^ 15)\<close>, outside the
  16 bit \<^verbatim>\<open>lastVoltage\<close>. The header's comment derives \<^verbatim>\<open>VOLTAGE_OFFSET\<close> as a
  voltage times 256 times 4096, not as a raw reading.
\<close>

lemma voltage_formula_out_of_range:
  assumes "channel_parameters VERSION cfg Voltage_class = Some (offset, scale)"
    and "0 \<le> rawSample" and "rawSample < 4096"
  shows "physicalValue offset scale rawSample < - (2 ^ 15)"
proof -
  have s: "0 \<le> scale" "scale \<le> 1548" and o: "9453071 \<le> offset" and s': "1418 \<le> scale"
    using assms(1) by (auto simp: VOLTAGE_OFFSET_def VOLTAGE_SCALE_def split: if_splits)
  have "rawSample - offset \<le> - 9448976" using o assms(3) by simp
  then have "(rawSample - offset) * scale \<le> (- 9448976) * scale"
    using s(1) by (rule mult_right_mono)
  also have "\<dots> \<le> (- 9448976) * 1418" using s' by simp
  finally have "(rawSample - offset) * scale div 2 ^ 12 \<le> ((- 9448976) * 1418) div 2 ^ 12"
    by (rule zdiv_mono1) simp
  then show ?thesis by (simp add: physicalValue_div)
qed







text \<open>
  C6. For each channel class with its configured (offset, scale) pair, the conversion is
  defined on every raw sample and is monotonic: a larger raw sample never converts to a
  smaller value.
\<close>

theorem convert_monotonic:
  assumes "channel_parameters VERSION cfg ch = Some (offset, scale)" and "r1 \<le> r2"
  shows "\<exists>y1 y2. convert VERSION cfg ch r1 = Some y1 \<and> convert VERSION cfg ch r2 = Some y2
           \<and> y1 \<le> y2"
proof -
  have "0 \<le> scale"
    using configured_scale_positive [OF assms(1)] by simp
  then have "physicalValue offset scale r1 \<le> physicalValue offset scale r2"
    using assms(2) by (rule physicalValue_mono)
  then show ?thesis
    using assms(1) by (simp add: convert_def)
qed

theorem convert_monotonic_witness:
  "channel_parameters 3 sample_Config (Current_class 4) = Some (2028, 8373)
   \<and> (0 :: int) \<le> 4095
   \<and> (\<exists>y1 y2. convert 3 sample_Config (Current_class 4) 0 = Some y1
          \<and> convert 3 sample_Config (Current_class 4) 4095 = Some y2 \<and> y1 \<le> y2)
   \<and> convert 3 sample_Config (Current_class 4) 0 = Some (- 4146)
   \<and> convert 3 sample_Config (Current_class 4) 4095 = Some 4225"
proof -
  have p: "channel_parameters 3 sample_Config (Current_class 4) = Some (2028, 8373)"
    by (rule channel_parameters_sample)
  have z: "(0 :: int) \<le> 4095"
    by simp
  have m: "\<exists>y1 y2. convert 3 sample_Config (Current_class 4) 0 = Some y1
          \<and> convert 3 sample_Config (Current_class 4) 4095 = Some y2 \<and> y1 \<le> y2"
    using p z by (rule convert_monotonic)
  have a: "convert 3 sample_Config (Current_class 4) 0 = Some (- 4146)"
    unfolding convert_def p by (simp add: physicalValue_div)
  have b: "convert 3 sample_Config (Current_class 4) 4095 = Some 4225"
    unfolding convert_def p by (simp add: physicalValue_div)
  from p z m a b show ?thesis by blast
qed

section \<open>The two views of the measurement union\<close>

lemma of_dataArray_dataArray:
  assumes "length g = NUM_IFS"
  shows "of_dataArray (dataArray g) = g"
proof -
  let ?r = "drop NUM_BATS g"
  have "take NUM_LOADS ?r @ take NUM_PANELS (drop NUM_LOADS ?r)
          = take (NUM_LOADS + NUM_PANELS) ?r"
    by (simp add: take_add)
  also have "\<dots> = ?r"
    using assms by (simp add: NUM_IFS_def)
  finally have "take NUM_LOADS ?r @ take NUM_PANELS (drop (NUM_BATS + NUM_LOADS) g) = ?r"
    by (simp add: add.commute)
  then show ?thesis
    by (simp add: of_dataArray_def dataArray_def)
qed

lemma index_channel_order:
  "map index_channel [0..<NUM_IFS]
     = [Some (Battery 0), Some (Battery 1), Some (Battery 2),
        Some (Load 0), Some (Load 1), Some (Panel 0)]"
  by (simp add: index_channel_def NUM_IFS_def NUM_BATS_def NUM_LOADS_def NUM_PANELS_def
      upt_rec)

lemma channel_index_of_index_channel:
  "i < NUM_IFS \<Longrightarrow> \<exists>c. index_channel i = Some c \<and> channel_index c = Some i"
  by (auto simp: index_channel_def NUM_IFS_def NUM_BATS_def NUM_LOADS_def NUM_PANELS_def)

lemma index_channel_of_channel_index:
  "channel_index c = Some i \<Longrightarrow> i < NUM_IFS \<and> index_channel i = Some c"
  by (cases c)
    (auto simp: index_channel_def NUM_IFS_def NUM_BATS_def NUM_LOADS_def NUM_PANELS_def
      split: if_splits)

lemma member_read_dataArray:
  assumes "length g = NUM_IFS" and "channel_index c = Some i"
  shows "member_read (dataArray g) c = data_read g i"
  using assms
  by (cases c)
    (auto simp: dataArray_def data_read_def NUM_IFS_def NUM_BATS_def NUM_LOADS_def
      NUM_PANELS_def split: if_splits)

lemma member_write_dataArray:
  assumes "length g = NUM_IFS" and "channel_index c = Some i"
  shows "member_write (dataArray g) c v = map_option dataArray (data_write g i v)"
  using assms
  by (cases c)
    (auto simp: dataArray_def data_write_def NUM_IFS_def NUM_BATS_def NUM_LOADS_def
      NUM_PANELS_def take_update_swap drop_update_swap list_update_beyond
      split: if_splits)

text \<open>
  C7. The flat array and the structure describe the same \<open>NUM_IFS = 6\<close> channels:
  positions 0 to 2 are the batteries, 3 and 4 the loads, 5 the panel, in this order;
  positions and channels correspond one to one; storing the structure view back gives
  the array; and a read or a write through a channel of the structure view is the read
  or write of the array at the channel's position.
\<close>

theorem InterfaceGroup_views_agree:
  assumes "length g = NUM_IFS"
  shows "NUM_IFS = NUM_BATS + NUM_LOADS + NUM_PANELS \<and> NUM_IFS = 6
    \<and> map index_channel [0..<NUM_IFS]
         = [Some (Battery 0), Some (Battery 1), Some (Battery 2),
            Some (Load 0), Some (Load 1), Some (Panel 0)]
    \<and> of_dataArray (dataArray g) = g
    \<and> (\<forall>i < NUM_IFS. \<exists>c. index_channel i = Some c \<and> channel_index c = Some i
           \<and> member_read (dataArray g) c = data_read g i \<and> data_read g i = Some (g ! i))
    \<and> (\<forall>c i. channel_index c = Some i \<longrightarrow>
           i < NUM_IFS \<and> index_channel i = Some c
           \<and> member_read (dataArray g) c = data_read g i
           \<and> (\<forall>v. member_write (dataArray g) c v = map_option dataArray (data_write g i v)))"
proof -
  have a: "\<exists>c. index_channel i = Some c \<and> channel_index c = Some i
           \<and> member_read (dataArray g) c = data_read g i \<and> data_read g i = Some (g ! i)"
    if "i < NUM_IFS" for i
  proof -
    from that obtain c where c: "index_channel i = Some c" "channel_index c = Some i"
      using channel_index_of_index_channel by blast
    moreover have "member_read (dataArray g) c = data_read g i"
      using assms c(2) by (rule member_read_dataArray)
    moreover have "data_read g i = Some (g ! i)"
      using that by (simp add: data_read_def)
    ultimately show ?thesis by blast
  qed
  have b: "i < NUM_IFS \<and> index_channel i = Some c
           \<and> member_read (dataArray g) c = data_read g i
           \<and> (\<forall>v. member_write (dataArray g) c v = map_option dataArray (data_write g i v))"
    if "channel_index c = Some i" for c i
    using that assms
    by (simp add: index_channel_of_channel_index member_read_dataArray
        member_write_dataArray)
  have 1: "NUM_IFS = NUM_BATS + NUM_LOADS + NUM_PANELS"
    by (rule NUM_IFS_def)
  have 2: "of_dataArray (dataArray g) = g"
    using assms by (rule of_dataArray_dataArray)
  show ?thesis
    using a b by (intro conjI 1 2 NUM_IFS_value index_channel_order) blast+
qed

theorem InterfaceGroup_views_agree_witness:
  "length sample_readings = NUM_IFS
   \<and> of_dataArray (dataArray sample_readings) = sample_readings
   \<and> member_read (dataArray sample_readings) (Load 1) = Some 50
   \<and> data_read sample_readings 4 = Some 50"
proof -
  have l: "length sample_readings = NUM_IFS"
    by (simp add: sample_readings_def NUM_IFS_value)
  have c: "channel_index (Load 1) = Some 4"
    by (simp add: NUM_BATS_def NUM_LOADS_def)
  have r: "data_read sample_readings 4 = Some 50"
    by (simp add: data_read_def sample_readings_def NUM_IFS_value)
  have v: "of_dataArray (dataArray sample_readings) = sample_readings"
    using InterfaceGroup_views_agree [OF l] by blast
  have "member_read (dataArray sample_readings) (Load 1) = data_read sample_readings 4"
    using InterfaceGroup_views_agree [OF l] c by blast
  with l v r show ?thesis
    by (simp only: simp_thms)
qed

section \<open>The configuration record\<close>

lemma Config_members_distinct: "distinct (map fst Config_members)"
  by (simp add: Config_members_def)

lemma spec_items_distinct: "distinct (map fst spec_items)"
  by (simp add: spec_items_def)

lemma Config_members_items:
  "set (members_as_items Config_members) = set (map (\<lambda>(item, n). (Some item, n)) spec_items)"
  by (simp add: members_as_items_def Config_members_def spec_items_def member_item_def
      insert_commute)

lemma Config_members_count:
  "length Config_members = 33" "length spec_items = 31"
  "length (filter (\<lambda>(name, t, n). member_item name = Some Communication_flag) Config_members) = 3"
  by (simp_all add: Config_members_def spec_items_def member_item_def)

lemma sizeof_Config_values:
  "sizeof_Config 1 2 = 92" "sizeof_Config 1 4 = 104" "sizeof_Config 2 2 = 94"
  "sizeof_Config 2 4 = 104" "sizeof_Config 4 2 = 100" "sizeof_Config 4 4 = 112"
  by code_simp+

text \<open>
  C8. The members of the configuration structure are exactly the items the spec names:
  every member stands for a named item with that item's number of elements
  (\<open>NUM_BATS\<close> for the six per-battery items, \<open>NUM_IFS\<close> for the current offsets,
  1 otherwise), every named item has a member, and since there are 33 distinct members
  for 31 distinct items of which the communication flags take three, every other item
  has exactly one member. The structure takes at most \<open>CONFIG_BLOCK_SIZE = 2048\<close>
  bytes, whether enumerations take 1, 2 or 4 bytes and tick counts 2 or 4.
\<close>

theorem Config_members_as_in_spec:
  "distinct (map fst Config_members) \<and> distinct (map fst spec_items)
   \<and> set (members_as_items Config_members)
       = set (map (\<lambda>(item, n). (Some item, n)) spec_items)
   \<and> length Config_members = 33 \<and> length spec_items = 31
   \<and> length (filter (\<lambda>(name, t, n). member_item name = Some Communication_flag)
         Config_members) = 3
   \<and> NUM_BATS = 3 \<and> NUM_IFS = 6 \<and> CONFIG_BLOCK_SIZE = 2048
   \<and> sizeof_Config 1 2 \<le> CONFIG_BLOCK_SIZE \<and> sizeof_Config 1 4 \<le> CONFIG_BLOCK_SIZE
   \<and> sizeof_Config 2 2 \<le> CONFIG_BLOCK_SIZE \<and> sizeof_Config 2 4 \<le> CONFIG_BLOCK_SIZE
   \<and> sizeof_Config 4 2 \<le> CONFIG_BLOCK_SIZE \<and> sizeof_Config 4 4 \<le> CONFIG_BLOCK_SIZE"
  unfolding sizeof_Config_values Config_members_count CONFIG_BLOCK_SIZE_def
  using Config_members_distinct spec_items_distinct Config_members_items
  by (simp add: NUM_IFS_value NUM_BATS_def)

section \<open>What can change at run time\<close>


lemma setCurrentOffset_out_of_range:
  "\<not> unat interface < NUM_IFS \<Longrightarrow> setCurrentOffset interface offset cfg = None"
  by (simp add: setCurrentOffset_def data_write_def)





end
